theory Spec2Isabelle
  imports Main "HOL-Library.Word"
begin

section \<open>JavaScript strings\<close>

text \<open>
  A JavaScript string is a sequence of UTF-16 code units. \<open>js\<close> turns an ASCII literal
  into such a sequence, so that \<open>js ''null''\<close> is the string \<^verbatim>\<open>'null'\<close>.
\<close>

type_synonym jschar = "16 word"
type_synonym jsstring = "jschar list"

definition js :: "string \<Rightarrow> jsstring" where
  "js s = map (\<lambda>c. of_nat (of_char c)) s"

text \<open>
  The code units that \<^verbatim>\<open>String.prototype.trim\<close> removes and that \<^verbatim>\<open>\s\<close> matches in a
  regular expression: ECMAScript's WhiteSpace and LineTerminator.
\<close>

definition isWhiteSpace :: "jschar \<Rightarrow> bool" where
  "isWhiteSpace c \<longleftrightarrow>
     c = 0x09 \<or> c = 0x0A \<or> c = 0x0B \<or> c = 0x0C \<or> c = 0x0D \<or> c = 0x20 \<or> c = 0xA0 \<or>
     c = 0x1680 \<or> (0x2000 \<le> c \<and> c \<le> 0x200A) \<or> c = 0x2028 \<or> c = 0x2029 \<or>
     c = 0x202F \<or> c = 0x205F \<or> c = 0x3000 \<or> c = 0xFEFF"

definition trim :: "jsstring \<Rightarrow> jsstring" where
  "trim s = rev (dropWhile isWhiteSpace (rev (dropWhile isWhiteSpace s)))"

section \<open>JSON values and property reads\<close>

text \<open>
  The values \<^verbatim>\<open>JSON.parse\<close> and \<^verbatim>\<open>response.json()\<close> produce. A number keeps its source
  text (the program never reads a number's value). An object keeps its members in source
  order, duplicates included; a read takes the last member of a name, as the object built
  by \<^verbatim>\<open>JSON.parse\<close> does.
\<close>

datatype json =
    JNull
  | JBool bool
  | JNum jsstring
  | JStr jsstring
  | JArr "json list"
  | JObj "(jsstring \<times> json) list"

text \<open>
  \<^verbatim>\<open>v.name\<close> for a value \<open>v\<close> other than \<^verbatim>\<open>null\<close> and a name that is neither an array
  index nor \<^verbatim>\<open>length\<close> nor a member of a built-in prototype (the program reads
  \<^verbatim>\<open>candidates\<close>, \<^verbatim>\<open>content\<close>, \<^verbatim>\<open>parts\<close>, \<^verbatim>\<open>text\<close>, \<^verbatim>\<open>smells\<close>, \<^verbatim>\<open>summary\<close>,
  \<^verbatim>\<open>refactored_code\<close>, \<^verbatim>\<open>severity\<close>, \<^verbatim>\<open>name\<close>, \<^verbatim>\<open>location\<close>,
  \<^verbatim>\<open>explanation\<close>). \<open>None\<close> is \<^verbatim>\<open>undefined\<close>.
\<close>

fun get_prop :: "json \<Rightarrow> jsstring \<Rightarrow> json option" where
  "get_prop (JObj members) k = map_of (rev members) k"
| "get_prop _ k = None"

text \<open>\<^verbatim>\<open>v[0]\<close> for a value \<open>v\<close> other than \<^verbatim>\<open>null\<close>.\<close>

fun get_index0 :: "json \<Rightarrow> json option" where
  "get_index0 (JArr []) = None"
| "get_index0 (JArr (e # es)) = Some e"
| "get_index0 (JStr []) = None"
| "get_index0 (JStr (c # cs)) = Some (JStr [c])"
| "get_index0 (JObj members) = map_of (rev members) (js ''0'')"
| "get_index0 _ = None"

text \<open>
  Optional chaining \<^verbatim>\<open>v?.p\<close>: \<^verbatim>\<open>undefined\<close> when \<open>v\<close> is \<^verbatim>\<open>undefined\<close> or \<^verbatim>\<open>null\<close>,
  the read otherwise.
\<close>

definition opt_chain :: "json option \<Rightarrow> (json \<Rightarrow> json option) \<Rightarrow> json option" where
  "opt_chain v rd = (case v of None \<Rightarrow> None | Some JNull \<Rightarrow> None | Some x \<Rightarrow> rd x)"

section \<open>JSON.parse\<close>

text \<open>
  \<^verbatim>\<open>JSON.parse\<close> is the platform's; the program's behaviour hangs on which texts it
  accepts and on the value it builds. It is written here from ECMA-404 as a lexer and a
  token parser with an explicit stack. \<open>None\<close> is the thrown \<^verbatim>\<open>SyntaxError\<close>.
\<close>

definition isJsonSpace :: "jschar \<Rightarrow> bool" where
  "isJsonSpace c \<longleftrightarrow> c = 0x20 \<or> c = 0x09 \<or> c = 0x0A \<or> c = 0x0D"

definition isDigit :: "jschar \<Rightarrow> bool" where
  "isDigit c \<longleftrightarrow> 0x30 \<le> c \<and> c \<le> 0x39"

definition hexval :: "jschar \<Rightarrow> jschar option" where
  "hexval c =
     (if 0x30 \<le> c \<and> c \<le> 0x39 then Some (c - 0x30)
      else if 0x41 \<le> c \<and> c \<le> 0x46 then Some (c - 0x37)
      else if 0x61 \<le> c \<and> c \<le> 0x66 then Some (c - 0x57)
      else None)"

definition hex4 :: "jschar \<Rightarrow> jschar \<Rightarrow> jschar \<Rightarrow> jschar \<Rightarrow> jschar option" where
  "hex4 a b c d =
     (case (hexval a, hexval b, hexval c, hexval d) of
        (Some x, Some y, Some z, Some w) \<Rightarrow> Some (((x * 16 + y) * 16 + z) * 16 + w)
      | _ \<Rightarrow> None)"

text \<open>The character after a backslash: quote, backslash, slash, b, f, n, r, t.\<close>

definition unescape :: "jschar \<Rightarrow> jschar option" where
  "unescape e =
     (if e = 0x22 \<or> e = 0x5C \<or> e = 0x2F then Some e
      else if e = 0x62 then Some 0x08
      else if e = 0x66 then Some 0x0C
      else if e = 0x6E then Some 0x0A
      else if e = 0x72 then Some 0x0D
      else if e = 0x74 then Some 0x09
      else None)"

definition prepend :: "jschar \<Rightarrow> (jsstring \<times> jsstring) option \<Rightarrow> (jsstring \<times> jsstring) option" where
  "prepend c res = (case res of None \<Rightarrow> None | Some (s, rest) \<Rightarrow> Some (c # s, rest))"

text \<open>
  A string from after its opening quote: the decoded string and the input after the
  closing quote. A control character (below U+0020) may not stand in a string.
\<close>

fun lex_string :: "jsstring \<Rightarrow> (jsstring \<times> jsstring) option" where
  "lex_string [] = None"
| "lex_string (c # cs) =
     (if c = 0x22 then Some ([], cs)
      else if c = 0x5C then
        (case cs of
           [] \<Rightarrow> None
         | e # r \<Rightarrow>
             if e = 0x75 then
               (case r of
                  h1 # h2 # h3 # h4 # r' \<Rightarrow>
                    (case hex4 h1 h2 h3 h4 of
                       None \<Rightarrow> None
                     | Some u \<Rightarrow> prepend u (lex_string r'))
                | _ \<Rightarrow> None)
             else (case unescape e of
                     None \<Rightarrow> None
                   | Some u \<Rightarrow> prepend u (lex_string r)))
      else if c < 0x20 then None
      else prepend c (lex_string cs))"

text \<open>A number: its source text and the input after it.\<close>

definition lex_integer :: "jsstring \<Rightarrow> (jsstring \<times> jsstring) option" where
  "lex_integer cs =
     (case cs of
        [] \<Rightarrow> None
      | d # r \<Rightarrow>
          if d = 0x30 then Some ([d], r)
          else if isDigit d then Some (d # takeWhile isDigit r, dropWhile isDigit r)
          else None)"

definition lex_fraction :: "jsstring \<Rightarrow> (jsstring \<times> jsstring) option" where
  "lex_fraction cs =
     (case cs of
        [] \<Rightarrow> Some ([], cs)
      | c # r \<Rightarrow>
          if c \<noteq> 0x2E then Some ([], cs)
          else if takeWhile isDigit r = [] then None
          else Some (c # takeWhile isDigit r, dropWhile isDigit r))"

definition lex_sign :: "jsstring \<Rightarrow> jsstring \<times> jsstring" where
  "lex_sign cs =
     (case cs of
        [] \<Rightarrow> ([], cs)
      | c # r \<Rightarrow> if c = 0x2B \<or> c = 0x2D then ([c], r) else ([], cs))"

definition lex_exponent :: "jsstring \<Rightarrow> (jsstring \<times> jsstring) option" where
  "lex_exponent cs =
     (case cs of
        [] \<Rightarrow> Some ([], cs)
      | c # r \<Rightarrow>
          if c \<noteq> 0x65 \<and> c \<noteq> 0x45 then Some ([], cs)
          else (case lex_sign r of
                  (sg, r') \<Rightarrow>
                    if takeWhile isDigit r' = [] then None
                    else Some (c # sg @ takeWhile isDigit r', dropWhile isDigit r')))"

definition lex_minus :: "jsstring \<Rightarrow> jsstring \<times> jsstring" where
  "lex_minus cs =
     (case cs of
        [] \<Rightarrow> ([], cs)
      | c # r \<Rightarrow> if c = 0x2D then ([c], r) else ([], cs))"

definition lex_number :: "jsstring \<Rightarrow> (jsstring \<times> jsstring) option" where
  "lex_number cs =
     (case lex_minus cs of
        (neg, r0) \<Rightarrow>
          (case lex_integer r0 of
             None \<Rightarrow> None
           | Some (int_part, r1) \<Rightarrow>
               (case lex_fraction r1 of
                  None \<Rightarrow> None
                | Some (frac, r2) \<Rightarrow>
                    (case lex_exponent r2 of
                       None \<Rightarrow> None
                     | Some (ex, r3) \<Rightarrow> Some (neg @ int_part @ frac @ ex, r3)))))"

lemma lex_string_shorter: "lex_string cs = Some (s, rest) \<Longrightarrow> length rest < length cs"
proof (induction cs arbitrary: s rest rule: lex_string.induct)
  case 1
  then show ?case by simp
next
  case (2 c cs)
  then show ?case
    by (fastforce simp: prepend_def split: if_splits list.splits option.splits)
qed

lemma lex_integer_shorter: "lex_integer cs = Some (l, rest) \<Longrightarrow> length rest < length cs"
  by (auto simp: lex_integer_def less_Suc_eq_le length_dropWhile_le split: list.splits if_splits)

lemma lex_fraction_shorter: "lex_fraction cs = Some (l, rest) \<Longrightarrow> length rest \<le> length cs"
  by (auto simp: lex_fraction_def le_SucI length_dropWhile_le split: list.splits if_splits)

lemma lex_sign_shorter: "lex_sign cs = (sg, rest) \<Longrightarrow> length rest \<le> length cs"
  by (auto simp: lex_sign_def split: list.splits if_splits)

lemma lex_minus_shorter: "lex_minus cs = (sg, rest) \<Longrightarrow> length rest \<le> length cs"
  by (auto simp: lex_minus_def split: list.splits if_splits)

lemma lex_exponent_shorter: "lex_exponent cs = Some (l, rest) \<Longrightarrow> length rest \<le> length cs"
proof -
  assume a: "lex_exponent cs = Some (l, rest)"
  show ?thesis
  proof (cases cs)
    case Nil
    with a show ?thesis by (simp add: lex_exponent_def)
  next
    case (Cons c r)
    obtain sg r' where sg: "lex_sign r = (sg, r')" by (cases "lex_sign r")
    have "length r' \<le> length r" using sg by (rule lex_sign_shorter)
    moreover have "length (dropWhile isDigit r') \<le> length r'" by (rule length_dropWhile_le)
    ultimately show ?thesis
      using a Cons sg by (auto simp: lex_exponent_def split: if_splits)
  qed
qed

lemma lex_number_shorter: "lex_number cs = Some (l, rest) \<Longrightarrow> length rest < length cs"
proof -
  assume a: "lex_number cs = Some (l, rest)"
  obtain neg r0 where m: "lex_minus cs = (neg, r0)" by (cases "lex_minus cs")
  from a m obtain i r1 where i: "lex_integer r0 = Some (i, r1)"
    by (auto simp: lex_number_def split: option.splits)
  from a m i obtain f r2 where f: "lex_fraction r1 = Some (f, r2)"
    by (auto simp: lex_number_def split: option.splits)
  from a m i f obtain e where e: "lex_exponent r2 = Some (e, rest)"
    by (auto simp: lex_number_def split: option.splits)
  from lex_integer_shorter [OF i] lex_fraction_shorter [OF f] lex_exponent_shorter [OF e]
    lex_minus_shorter [OF m]
  show ?thesis by linarith
qed

datatype token = LBrace | RBrace | LBracket | RBracket | Colon | Comma | Scalar json

definition cons_token :: "token \<Rightarrow> token list option \<Rightarrow> token list option" where
  "cons_token t res = (case res of None \<Rightarrow> None | Some ts \<Rightarrow> Some (t # ts))"

function lex :: "jsstring \<Rightarrow> token list option" where
  "lex [] = Some []"
| "lex (c # cs) =
     (if isJsonSpace c then lex cs
      else if c = 0x7B then cons_token LBrace (lex cs)
      else if c = 0x7D then cons_token RBrace (lex cs)
      else if c = 0x5B then cons_token LBracket (lex cs)
      else if c = 0x5D then cons_token RBracket (lex cs)
      else if c = 0x3A then cons_token Colon (lex cs)
      else if c = 0x2C then cons_token Comma (lex cs)
      else if c = 0x22 then
        (case lex_string cs of
           None \<Rightarrow> None
         | Some (s, rest) \<Rightarrow> cons_token (Scalar (JStr s)) (lex rest))
      else if c = 0x2D \<or> isDigit c then
        (case lex_number (c # cs) of
           None \<Rightarrow> None
         | Some (l, rest) \<Rightarrow> cons_token (Scalar (JNum l)) (lex rest))
      else if take 4 (c # cs) = js ''null'' then cons_token (Scalar JNull) (lex (drop 3 cs))
      else if take 4 (c # cs) = js ''true'' then cons_token (Scalar (JBool True)) (lex (drop 3 cs))
      else if take 5 (c # cs) = js ''false'' then cons_token (Scalar (JBool False)) (lex (drop 4 cs))
      else None)"
  by pat_completeness auto
termination
proof (relation "measure length")
  fix c cs x s rest
  assume "lex_string cs = Some x" and "(s, rest) = x"
  then show "(rest, c # cs) \<in> measure length"
    using lex_string_shorter [of cs s rest] by simp
next
  fix c cs x l rest
  assume "lex_number (c # cs) = Some x" and "(l, rest) = x"
  then show "(rest, c # cs) \<in> measure length"
    using lex_number_shorter [of "c # cs" l rest] by simp
qed auto

text \<open>
  The token parser. The stack holds the containers that are open: an array with its
  elements so far, an object with its members so far, or an object whose next member has
  its name and waits for its value (all newest first).
\<close>

datatype frame =
    ArrayFrame "json list"
  | ObjectFrame "(jsstring \<times> json) list"
  | MemberFrame "(jsstring \<times> json) list" jsstring

datatype expect = Value | ValueOrClose | KeyOrClose | Key | ColonAfterKey | CommaOrClose
  | Finished json

type_synonym parser = "expect \<times> frame list"

text \<open>A finished value goes to the container it stands in, or is the result.\<close>

fun deliver :: "json \<Rightarrow> frame list \<Rightarrow> parser option" where
  "deliver v [] = Some (Finished v, [])"
| "deliver v (ArrayFrame es # st) = Some (CommaOrClose, ArrayFrame (v # es) # st)"
| "deliver v (MemberFrame ms k # st) = Some (CommaOrClose, ObjectFrame ((k, v) # ms) # st)"
| "deliver v (ObjectFrame ms # st) = None"

definition open_value :: "frame list \<Rightarrow> token \<Rightarrow> parser option" where
  "open_value st t =
     (case t of
        Scalar v \<Rightarrow> deliver v st
      | LBracket \<Rightarrow> Some (ValueOrClose, ArrayFrame [] # st)
      | LBrace \<Rightarrow> Some (KeyOrClose, ObjectFrame [] # st)
      | _ \<Rightarrow> None)"

definition close_array :: "frame list \<Rightarrow> parser option" where
  "close_array st =
     (case st of ArrayFrame es # st' \<Rightarrow> deliver (JArr (rev es)) st' | _ \<Rightarrow> None)"

definition close_object :: "frame list \<Rightarrow> parser option" where
  "close_object st =
     (case st of ObjectFrame ms # st' \<Rightarrow> deliver (JObj (rev ms)) st' | _ \<Rightarrow> None)"

definition member_key :: "frame list \<Rightarrow> token \<Rightarrow> parser option" where
  "member_key st t =
     (case t of
        Scalar (JStr k) \<Rightarrow>
          (case st of
             ObjectFrame ms # st' \<Rightarrow> Some (ColonAfterKey, MemberFrame ms k # st')
           | _ \<Rightarrow> None)
      | _ \<Rightarrow> None)"

definition after_value :: "frame list \<Rightarrow> token \<Rightarrow> parser option" where
  "after_value st t =
     (case t of
        Comma \<Rightarrow>
          (case st of
             ArrayFrame es # st' \<Rightarrow> Some (Value, st)
           | ObjectFrame ms # st' \<Rightarrow> Some (Key, st)
           | _ \<Rightarrow> None)
      | RBracket \<Rightarrow> close_array st
      | RBrace \<Rightarrow> close_object st
      | _ \<Rightarrow> None)"

definition parse_step :: "parser \<Rightarrow> token \<Rightarrow> parser option" where
  "parse_step p t =
     (case p of
        (Value, st) \<Rightarrow> open_value st t
      | (ValueOrClose, st) \<Rightarrow> (if t = RBracket then close_array st else open_value st t)
      | (KeyOrClose, st) \<Rightarrow> (if t = RBrace then close_object st else member_key st t)
      | (Key, st) \<Rightarrow> member_key st t
      | (ColonAfterKey, st) \<Rightarrow> (if t = Colon then Some (Value, st) else None)
      | (CommaOrClose, st) \<Rightarrow> after_value st t
      | (Finished v, st) \<Rightarrow> None)"

fun parse_tokens :: "parser \<Rightarrow> token list \<Rightarrow> json option" where
  "parse_tokens p [] = (case p of (Finished v, st) \<Rightarrow> Some v | _ \<Rightarrow> None)"
| "parse_tokens p (t # ts) =
     (case parse_step p t of None \<Rightarrow> None | Some p' \<Rightarrow> parse_tokens p' ts)"

definition JSON_parse :: "jsstring \<Rightarrow> json option" where
  "JSON_parse text = (case lex text of None \<Rightarrow> None | Some ts \<Rightarrow> parse_tokens (Value, []) ts)"

section \<open>api.js: the completion client\<close>

text \<open>
  Every failure is a thrown \<^verbatim>\<open>Error\<close> told apart by its message only. One constructor
  per message:
  \<^item> \<open>MissingCredential\<close>: 'Invalid or missing API key. Open config.json and add your
    Gemini API key.' (shown by \<^verbatim>\<open>onAnalyze\<close>, never thrown);
  \<^item> \<open>Timeout\<close>: 'Request timed out. Please try again.';
  \<^item> \<open>NetworkError\<close>: 'Network error. Please check your connection.';
  \<^item> \<open>BadCredential\<close>: 'Invalid or missing API key.';
  \<^item> \<open>Unauthorized\<close>: 'API key is unauthorised. Check that your key is valid and active.';
  \<^item> \<open>RateLimited\<close>: 'API rate limit exceeded. Please wait a moment and try again.';
  \<^item> \<open>EndpointError n\<close>: 'Gemini API error (HTTP n). Please try again.';
  \<^item> \<open>MalformedEnvelope\<close>: 'Malformed response from Gemini.';
  \<^item> \<open>NoContent\<close>: 'Malformed response from Gemini - no content returned.';
  \<^item> \<open>ParseError\<close>: 'Malformed response from Gemini. Could not parse the analysis
    result.';
  \<^item> \<open>TypeError\<close>: a \<^verbatim>\<open>TypeError\<close> raised by the JavaScript runtime itself;
  \<^item> \<open>ClipboardError\<close>, \<open>NothingToExport\<close>: the messages of \<^verbatim>\<open>copyToClipboard\<close>
    and \<^verbatim>\<open>onExportChat\<close>.
\<close>

datatype error =
    MissingCredential
  | Timeout
  | NetworkError
  | BadCredential
  | Unauthorized
  | RateLimited
  | EndpointError nat
  | MalformedEnvelope
  | NoContent
  | ParseError
  | TypeError
  | ClipboardError
  | NothingToExport

definition GEMINI_ENDPOINT :: jsstring where
  "GEMINI_ENDPOINT =
     js ''https://generativelanguage.googleapis.com/v1beta/models/gemini-2.5-flash-lite:generateContent''"

definition REQUEST_TIMEOUT_MS :: nat where
  "REQUEST_TIMEOUT_MS = 30000"

text \<open>
  What \<^verbatim>\<open>callGemini\<close> hands to \<^verbatim>\<open>fetch\<close>. \<open>body\<close> is the object \<^verbatim>\<open>requestBody\<close>
  that \<^verbatim>\<open>JSON.stringify\<close> serialises; \<open>timeout_ms\<close> is the argument of
  \<^verbatim>\<open>AbortSignal.timeout\<close>.
\<close>

record request =
  url :: jsstring
  http_method :: jsstring
  headers :: "(jsstring \<times> jsstring) list"
  body :: json
  timeout_ms :: nat

definition callGemini_request :: "jsstring \<Rightarrow> jsstring \<Rightarrow> bool \<Rightarrow> request" where
  "callGemini_request prompt apiKey forceJson =
     \<lparr> url = GEMINI_ENDPOINT,
       http_method = js ''POST'',
       headers = [(js ''Content-Type'', js ''application/json''),
                  (js ''x-goog-api-key'', apiKey)],
       body = JObj ([(js ''contents'',
                       JArr [JObj [(js ''parts'', JArr [JObj [(js ''text'', JStr prompt)]])]])]
                    @ (if forceJson
                       then [(js ''generationConfig'',
                              JObj [(js ''response_mime_type'', JStr (js ''application/json''))])]
                       else [])),
       timeout_ms = REQUEST_TIMEOUT_MS \<rparr>"

text \<open>
  What the environment answers. \<^verbatim>\<open>fetch\<close> either rejects with an error, of which the
  code reads the \<^verbatim>\<open>name\<close> only, or resolves with a response. Of a response the code
  reads \<^verbatim>\<open>status\<close>, \<^verbatim>\<open>ok\<close> (by the Fetch standard: the status is in 200..299) and
  \<^verbatim>\<open>json()\<close>, which resolves with the parsed body or rejects (\<open>None\<close>; the code
  ignores why).
\<close>

record response =
  status :: nat
  json_body :: "json option"

definition ok :: "response \<Rightarrow> bool" where
  "ok r \<longleftrightarrow> 200 \<le> status r \<and> status r \<le> 299"

datatype fetch_outcome = Rejected jsstring | Resolved response

text \<open>\<^verbatim>\<open>data?.candidates?.[0]?.content?.parts?.[0]?.text\<close>\<close>

definition envelope_text :: "json \<Rightarrow> json option" where
  "envelope_text data =
     opt_chain (opt_chain (opt_chain (opt_chain (opt_chain (opt_chain (Some data)
       (\<lambda>v. get_prop v (js ''candidates'')))
       get_index0)
       (\<lambda>v. get_prop v (js ''content'')))
       (\<lambda>v. get_prop v (js ''parts'')))
       get_index0)
       (\<lambda>v. get_prop v (js ''text''))"

text \<open>\<^verbatim>\<open>callGemini\<close> from the point where \<^verbatim>\<open>fetch\<close> settles.\<close>

definition callGemini :: "fetch_outcome \<Rightarrow> error + jsstring" where
  "callGemini outcome =
     (case outcome of
        Rejected name \<Rightarrow>
          if name = js ''TimeoutError'' \<or> name = js ''AbortError'' then Inl Timeout
          else Inl NetworkError
      | Resolved r \<Rightarrow>
          if status r = 400 then Inl BadCredential
          else if status r = 401 \<or> status r = 403 then Inl Unauthorized
          else if status r = 429 then Inl RateLimited
          else if \<not> ok r then Inl (EndpointError (status r))
          else (case json_body r of
                  None \<Rightarrow> Inl MalformedEnvelope
                | Some data \<Rightarrow>
                    (case envelope_text data of
                       Some (JStr t) \<Rightarrow> if trim t = [] then Inl NoContent else Inr t
                     | _ \<Rightarrow> Inl NoContent)))"

text \<open>
  What the network does with the request, with times in milliseconds from the start of
  the request: nothing ever comes (\<open>Hangs\<close>), the connection fails (\<open>Fails\<close>), or the
  head of a response arrives with its status, after which the body arrives whole (with
  what it parses to, \<open>None\<close> when it is not JSON), breaks off, or never ends.
\<close>

datatype body_arrival = Complete nat "json option" | Broken nat | Stalls

datatype exchange = Hangs | Fails nat | Head nat nat body_arrival

text \<open>
  \<^verbatim>\<open>response.json()\<close> under \<^verbatim>\<open>AbortSignal.timeout(limit)\<close>: the parsed body when the
  body is whole before the signal fires and is JSON; a rejection (\<open>None\<close>) when the body
  is not JSON, when the connection breaks, and when the signal fires first.
\<close>

definition read_body :: "nat \<Rightarrow> body_arrival \<Rightarrow> json option" where
  "read_body limit b =
     (case b of
        Complete t parsed \<Rightarrow> if t < limit then parsed else None
      | Broken t \<Rightarrow> None
      | Stalls \<Rightarrow> None)"

text \<open>
  \<^verbatim>\<open>fetch\<close> with the signal of the request: it rejects with a \<^verbatim>\<open>TimeoutError\<close> when the
  signal fires before the head of a response has arrived, with a \<^verbatim>\<open>TypeError\<close> when the
  connection fails before that, and resolves with the response otherwise.
\<close>

definition fetch_settles :: "request \<Rightarrow> exchange \<Rightarrow> fetch_outcome" where
  "fetch_settles req x =
     (case x of
        Hangs \<Rightarrow> Rejected (js ''TimeoutError'')
      | Fails t \<Rightarrow>
          if t < timeout_ms req then Rejected (js ''TypeError'')
          else Rejected (js ''TimeoutError'')
      | Head t st b \<Rightarrow>
          if t < timeout_ms req
          then Resolved \<lparr>status = st, json_body = read_body (timeout_ms req) b\<rparr>
          else Rejected (js ''TimeoutError''))"

text \<open>The whole of \<^verbatim>\<open>callGemini\<close>: the request it builds, sent, and what it makes of the answer.\<close>

definition callGemini_sent :: "jsstring \<Rightarrow> jsstring \<Rightarrow> bool \<Rightarrow> exchange \<Rightarrow> error + jsstring" where
  "callGemini_sent prompt apiKey forceJson x =
     callGemini (fetch_settles (callGemini_request prompt apiKey forceJson) x)"

section \<open>api.js: analyzeCode\<close>

text \<open>
  \<^verbatim>\<open>rawText.replace(/^```(?:json)?\s*/i, '')\<close>: a text that starts with three backticks
  loses them, then \<^verbatim>\<open>json\<close> in any case if it follows, then the white space that
  follows; any other text is unchanged. (Without the \<^verbatim>\<open>u\<close> flag, \<^verbatim>\<open>/i\<close> matches no
  code unit outside ASCII against an ASCII letter.)
\<close>

definition fence :: jsstring where
  "fence = [0x60, 0x60, 0x60]"

definition starts_with_json :: "jsstring \<Rightarrow> bool" where
  "starts_with_json s =
     (case s of
        a # b # c # d # rest \<Rightarrow>
          (a = 0x6A \<or> a = 0x4A) \<and> (b = 0x73 \<or> b = 0x53) \<and>
          (c = 0x6F \<or> c = 0x4F) \<and> (d = 0x6E \<or> d = 0x4E)
      | _ \<Rightarrow> False)"

definition strip_open_fence :: "jsstring \<Rightarrow> jsstring" where
  "strip_open_fence s =
     (if take 3 s = fence
      then dropWhile isWhiteSpace
             (if starts_with_json (drop 3 s) then drop 7 s else drop 3 s)
      else s)"

text \<open>
  \<^verbatim>\<open>.replace(/\s*```$/i, '')\<close>: a text that ends with three backticks loses them and the
  white space before them; any other text is unchanged.
\<close>

definition strip_close_fence :: "jsstring \<Rightarrow> jsstring" where
  "strip_close_fence s =
     (if take 3 (rev s) = fence
      then rev (dropWhile isWhiteSpace (drop 3 (rev s)))
      else s)"

definition strip_fences :: "jsstring \<Rightarrow> jsstring" where
  "strip_fences rawText = trim (strip_close_fence (strip_open_fence rawText))"

text \<open>
  The object \<^verbatim>\<open>analyzeCode\<close> returns, read through the three properties its last lines
  guarantee: after them \<^verbatim>\<open>result.smells\<close> is an array, \<^verbatim>\<open>result.summary\<close> and
  \<^verbatim>\<open>result.refactored_code\<close> are strings. The elements of \<open>smells\<close> are whatever JSON
  values the model sent.
\<close>

record AnalysisResult =
  summary :: jsstring
  smells :: "json list"
  refactored_code :: jsstring

text \<open>
  Lines 155 to 157 on a parsed value that can take properties (an object, or an array,
  on which the three names are not defined):
  \<^verbatim>\<open>
  if (!Array.isArray(result.smells))              result.smells = [];
  if (typeof result.summary !== 'string')         result.summary = '';
  if (typeof result.refactored_code !== 'string') result.refactored_code = code;
  \<close>
\<close>

definition repair :: "json \<Rightarrow> jsstring \<Rightarrow> AnalysisResult" where
  "repair result code =
     \<lparr> summary = (case get_prop result (js ''summary'') of Some (JStr s) \<Rightarrow> s | _ \<Rightarrow> []),
       smells = (case get_prop result (js ''smells'') of Some (JArr es) \<Rightarrow> es | _ \<Rightarrow> []),
       refactored_code =
         (case get_prop result (js ''refactored_code'') of Some (JStr s) \<Rightarrow> s | _ \<Rightarrow> code) \<rparr>"

text \<open>
  \<^verbatim>\<open>analyzeCode\<close> from the raw text on (lines 142 to 159), the step the specification
  calls normalizeAnalysis. On \<^verbatim>\<open>null\<close> the read \<^verbatim>\<open>result.smells\<close> throws a TypeError. On
  a number, a string or a boolean the read gives \<^verbatim>\<open>undefined\<close> and the write
  \<^verbatim>\<open>result.smells = []\<close> throws a TypeError, the file being a module and so strict code.
  Neither is caught.
\<close>

definition analyzeCode_normalise :: "jsstring \<Rightarrow> jsstring \<Rightarrow> error + AnalysisResult" where
  "analyzeCode_normalise rawText code =
     (case JSON_parse (strip_fences rawText) of
        None \<Rightarrow> Inl ParseError
      | Some result \<Rightarrow>
          (case result of
             JObj members \<Rightarrow> Inr (repair result code)
           | JArr es \<Rightarrow> Inr (repair result code)
           | _ \<Rightarrow> Inl TypeError))"

text \<open>
  \<^verbatim>\<open>analyzeCode\<close> and \<^verbatim>\<open>sendFollowUp\<close> from the point where the request settles. The
  prompt builders only shape the request and are not modelled.
\<close>

definition analyzeCode :: "jsstring \<Rightarrow> fetch_outcome \<Rightarrow> error + AnalysisResult" where
  "analyzeCode code outcome =
     (case callGemini outcome of
        Inl e \<Rightarrow> Inl e
      | Inr rawText \<Rightarrow> analyzeCode_normalise rawText code)"

definition sendFollowUp :: "fetch_outcome \<Rightarrow> error + jsstring" where
  "sendFollowUp outcome = callGemini outcome"

section \<open>state.js: the session state\<close>

datatype role = user | gemini

record ChatEntry =
  role :: role
  entry_text :: jsstring
  timestamp :: nat

text \<open>The module's variables. \<open>apiKey = None\<close> is \<^verbatim>\<open>null\<close>.\<close>

record state =
  apiKey :: "jsstring option"
  currentCode :: jsstring
  currentLanguage :: jsstring
  analysisResult :: "AnalysisResult option"
  chatHistory :: "ChatEntry list"

definition initial_state :: state where
  "initial_state =
     \<lparr> apiKey = None, currentCode = [], currentLanguage = js ''auto'',
       analysisResult = None, chatHistory = [] \<rparr>"

definition setApiKey :: "jsstring \<Rightarrow> state \<Rightarrow> state" where
  "setApiKey k s = s\<lparr>apiKey := Some k\<rparr>"

definition setCurrentCode :: "jsstring \<Rightarrow> state \<Rightarrow> state" where
  "setCurrentCode code s = s\<lparr>currentCode := code\<rparr>"

definition setCurrentLanguage :: "jsstring \<Rightarrow> state \<Rightarrow> state" where
  "setCurrentLanguage language s = s\<lparr>currentLanguage := language\<rparr>"

definition setAnalysisResult :: "AnalysisResult \<Rightarrow> state \<Rightarrow> state" where
  "setAnalysisResult result s = s\<lparr>analysisResult := Some result\<rparr>"

text \<open>\<open>now\<close> is the value of \<^verbatim>\<open>new Date()\<close> at the call.\<close>

definition appendChat :: "role \<Rightarrow> jsstring \<Rightarrow> nat \<Rightarrow> state \<Rightarrow> state" where
  "appendChat r t now s =
     s\<lparr>chatHistory := chatHistory s @ [\<lparr>role = r, entry_text = t, timestamp = now\<rparr>]\<rparr>"

text \<open>\<^verbatim>\<open>reset\<close> of state.js.\<close>

definition state_reset :: "state \<Rightarrow> state" where
  "state_reset s =
     s\<lparr>currentCode := [], currentLanguage := js ''auto'', analysisResult := None,
       chatHistory := []\<rparr>"

section \<open>ui.js: the page\<close>

text \<open>
  The properties of the page's elements that decide which handler can run and what the
  user is told: the \<^verbatim>\<open>disabled\<close> flags and values of the controls, the \<^verbatim>\<open>hidden\<close>
  class of the panels, the error banner and the chat log. The rendered texts (counter,
  summary, smell cards, code panes, button labels) are left out. \<open>errorMessage = None\<close> is
  the empty text.
\<close>

record ui =
  analyzeBtn_disabled :: bool
  clearBtn_disabled :: bool
  codeInput_disabled :: bool
  languageSelect_disabled :: bool
  chatSendBtn_disabled :: bool
  chatInput_disabled :: bool
  codeInput_value :: jsstring
  languageSelect_value :: jsstring
  chatInput_value :: jsstring
  loadingIndicator_hidden :: bool
  errorBanner_hidden :: bool
  errorMessage :: "error option"
  resultsSection_hidden :: bool
  chatPanel_hidden :: bool
  chatLog :: "(role \<times> jsstring) list"

definition setAnalyzeButtonEnabled :: "bool \<Rightarrow> ui \<Rightarrow> ui" where
  "setAnalyzeButtonEnabled enabled u = u\<lparr>analyzeBtn_disabled := \<not> enabled\<rparr>"

definition setLoading :: "bool \<Rightarrow> ui \<Rightarrow> ui" where
  "setLoading loading u =
     u\<lparr>loadingIndicator_hidden := \<not> loading, analyzeBtn_disabled := loading,
       codeInput_disabled := loading, languageSelect_disabled := loading,
       clearBtn_disabled := loading\<rparr>"

definition showError :: "error \<Rightarrow> ui \<Rightarrow> ui" where
  "showError e u = u\<lparr>errorMessage := Some e, errorBanner_hidden := False\<rparr>"

definition hideError :: "ui \<Rightarrow> ui" where
  "hideError u = u\<lparr>errorBanner_hidden := True, errorMessage := None\<rparr>"

text \<open>
  Turning a value into a string, as a template literal and the \<^verbatim>\<open>textContent\<close> setter
  do, throws a TypeError on an object with a member named \<^verbatim>\<open>toString\<close> (a JSON value
  is never a function, and \<^verbatim>\<open>valueOf\<close> gives no primitive) and on an array with such
  an element (\<^verbatim>\<open>join\<close> turns every element other than \<^verbatim>\<open>null\<close> into a string).
\<close>

fun toString_throws :: "json \<Rightarrow> bool" where
  "toString_throws (JObj members) = (js ''toString'' \<in> fst ` set members)"
| "toString_throws (JArr es) = list_ex toString_throws es"
| "toString_throws _ = False"

definition shown_throws :: "json option \<Rightarrow> bool" where
  "shown_throws v = (case v of None \<Rightarrow> False | Some x \<Rightarrow> toString_throws x)"

text \<open>
  \<^verbatim>\<open>(severity ?? '').toLowerCase()\<close> in \<^verbatim>\<open>normaliseSeverity\<close> throws a TypeError on a
  severity that is neither absent, \<^verbatim>\<open>null\<close> nor a string.
\<close>

definition normaliseSeverity_throws :: "json option \<Rightarrow> bool" where
  "normaliseSeverity_throws severity =
     (case severity of
        None \<Rightarrow> False
      | Some JNull \<Rightarrow> False
      | Some (JStr s) \<Rightarrow> False
      | Some _ \<Rightarrow> True)"

text \<open>
  \<^verbatim>\<open>createSmellCard\<close> throws a TypeError on a smell that is \<^verbatim>\<open>null\<close> (the read
  \<^verbatim>\<open>smell.severity\<close>), on a severity \<^verbatim>\<open>normaliseSeverity\<close> throws on, and on a name,
  location or explanation that cannot be turned into a string.
\<close>

definition createSmellCard_throws :: "json \<Rightarrow> bool" where
  "createSmellCard_throws smell =
     (case smell of
        JNull \<Rightarrow> True
      | _ \<Rightarrow>
          normaliseSeverity_throws (get_prop smell (js ''severity''))
          \<or> shown_throws (get_prop smell (js ''name''))
          \<or> shown_throws (get_prop smell (js ''location''))
          \<or> shown_throws (get_prop smell (js ''explanation'')))"

text \<open>
  \<^verbatim>\<open>renderResults\<close>: the summary, then one card per smell, then the code panes, then
  the results section is shown. When a card throws, the section keeps its state. (The
  highlighting library, when the page has loaded one, is taken not to throw.)
\<close>

definition renderResults :: "AnalysisResult \<Rightarrow> ui \<Rightarrow> error + ui" where
  "renderResults result u =
     (if list_ex createSmellCard_throws (smells result) then Inl TypeError
      else Inr (u\<lparr>resultsSection_hidden := False\<rparr>))"

definition showChatPanel :: "ui \<Rightarrow> ui" where
  "showChatPanel u = u\<lparr>chatPanel_hidden := False\<rparr>"

definition appendChatMessage :: "role \<Rightarrow> jsstring \<Rightarrow> ui \<Rightarrow> ui" where
  "appendChatMessage r t u = u\<lparr>chatLog := chatLog u @ [(r, t)]\<rparr>"

definition setChatSending :: "bool \<Rightarrow> ui \<Rightarrow> ui" where
  "setChatSending sending u = u\<lparr>chatSendBtn_disabled := sending, chatInput_disabled := sending\<rparr>"

definition clearChatInput :: "ui \<Rightarrow> ui" where
  "clearChatInput u = u\<lparr>chatInput_value := []\<rparr>"

text \<open>\<^verbatim>\<open>reset\<close> of ui.js.\<close>

definition ui_reset :: "ui \<Rightarrow> ui" where
  "ui_reset u =
     u\<lparr>codeInput_value := [], languageSelect_value := js ''auto'',
       codeInput_disabled := False, languageSelect_disabled := False,
       errorBanner_hidden := True, errorMessage := None,
       loadingIndicator_hidden := True, resultsSection_hidden := True,
       chatPanel_hidden := True, chatLog := [], chatInput_value := [],
       chatInput_disabled := False, chatSendBtn_disabled := False,
       analyzeBtn_disabled := True, clearBtn_disabled := False\<rparr>"

section \<open>app.js: the handlers\<close>

text \<open>
  A handler runs up to its \<^verbatim>\<open>await\<close>, and the rest of it runs when the request
  settles; other handlers can run in between. \<open>pending\<close> holds the requests that have not
  settled, oldest first, each with the local variables the rest of its handler reads.
\<close>

datatype in_flight = Analyzing jsstring jsstring | Sending jsstring

record app =
  state :: state
  ui :: ui
  pending :: "in_flight list"

text \<open>\<^verbatim>\<open>!apiKey\<close>\<close>

definition no_key :: "jsstring option \<Rightarrow> bool" where
  "no_key k \<longleftrightarrow> k = None \<or> k = Some []"

definition onCodeInput :: "app \<Rightarrow> app" where
  "onCodeInput a =
     (let v = codeInput_value (ui a) in
      a\<lparr>state := setCurrentCode v (state a),
        ui := setAnalyzeButtonEnabled (10 \<le> length v) (ui a)\<rparr>)"

definition onLanguageChange :: "app \<Rightarrow> app" where
  "onLanguageChange a = a\<lparr>state := setCurrentLanguage (languageSelect_value (ui a)) (state a)\<rparr>"

text \<open>\<^verbatim>\<open>onAnalyze\<close> up to \<^verbatim>\<open>await api.analyzeCode(code, language, apiKey)\<close>.\<close>

definition onAnalyze_start :: "app \<Rightarrow> app" where
  "onAnalyze_start a =
     (let code = currentCode (state a); language = currentLanguage (state a) in
      if no_key (apiKey (state a)) then a\<lparr>ui := showError MissingCredential (ui a)\<rparr>
      else a\<lparr>ui := setLoading True (hideError (ui a)),
             pending := pending a @ [Analyzing code language]\<rparr>)"

text \<open>
  The rest of \<^verbatim>\<open>onAnalyze\<close>, given what \<^verbatim>\<open>api.analyzeCode\<close> settled with: the
  \<^verbatim>\<open>try\<close> block, the \<^verbatim>\<open>catch\<close> and the \<^verbatim>\<open>finally\<close>.
\<close>

definition onAnalyze_settle :: "jsstring \<Rightarrow> error + AnalysisResult \<Rightarrow> app \<Rightarrow> app" where
  "onAnalyze_settle code res a =
     (let a1 =
        (case res of
           Inl e \<Rightarrow> a\<lparr>ui := showError e (ui a)\<rparr>
         | Inr result \<Rightarrow>
             (let a' = a\<lparr>state := setAnalysisResult result (state a)\<rparr> in
              case renderResults result (ui a') of
                Inl e \<Rightarrow> a'\<lparr>ui := showError e (ui a')\<rparr>
              | Inr u \<Rightarrow> a'\<lparr>ui := showChatPanel u\<rparr>))
      in a1\<lparr>ui := setAnalyzeButtonEnabled (10 \<le> length code) (setLoading False (ui a1))\<rparr>)"

definition onClear :: "app \<Rightarrow> app" where
  "onClear a = a\<lparr>state := state_reset (state a), ui := ui_reset (ui a)\<rparr>"

text \<open>
  \<^verbatim>\<open>onCopy\<close>; \<open>copied\<close> says whether the clipboard took the text.
\<close>

definition onCopy :: "bool \<Rightarrow> app \<Rightarrow> app" where
  "onCopy copied a =
     (case analysisResult (state a) of
        None \<Rightarrow> a
      | Some result \<Rightarrow>
          if refactored_code result \<noteq> [] \<and> \<not> copied
          then a\<lparr>ui := showError ClipboardError (ui a)\<rparr>
          else a)"

text \<open>\<^verbatim>\<open>onChatSend\<close> up to \<^verbatim>\<open>await api.sendFollowUp(...)\<close>.\<close>

definition onChatSend_start :: "nat \<Rightarrow> app \<Rightarrow> app" where
  "onChatSend_start now a =
     (let question = trim (chatInput_value (ui a)) in
      if question = [] \<or> no_key (apiKey (state a)) \<or> analysisResult (state a) = None then a
      else a\<lparr>state := appendChat user question now (state a),
             ui := setChatSending True (clearChatInput (appendChatMessage user question (ui a))),
             pending := pending a @ [Sending question]\<rparr>)"

text \<open>The rest of \<^verbatim>\<open>onChatSend\<close>, given what \<^verbatim>\<open>api.sendFollowUp\<close> settled with.\<close>

definition onChatSend_settle :: "error + jsstring \<Rightarrow> nat \<Rightarrow> app \<Rightarrow> app" where
  "onChatSend_settle res now a =
     (let a1 =
        (case res of
           Inr reply \<Rightarrow>
             a\<lparr>state := appendChat gemini reply now (state a),
               ui := appendChatMessage gemini reply (ui a)\<rparr>
         | Inl e \<Rightarrow> a\<lparr>ui := showError e (ui a)\<rparr>)
      in a1\<lparr>ui := setChatSending False (ui a1)\<rparr>)"

text \<open>
  \<^verbatim>\<open>onExportChat\<close>: \<^verbatim>\<open>getChatLog()\<close> is the empty string exactly when the history is
  empty; the download leaves the state alone.
\<close>

definition onExportChat :: "app \<Rightarrow> app" where
  "onExportChat a =
     (if chatHistory (state a) = [] then a\<lparr>ui := showError NothingToExport (ui a)\<rparr> else a)"

definition onDismissError :: "app \<Rightarrow> app" where
  "onDismissError a = a\<lparr>ui := hideError (ui a)\<rparr>"

section \<open>The page as a transition system\<close>

text \<open>
  What can happen to the page: the user acts on a control, or a pending request settles.
  The browser delivers no input, change, click or key event to a disabled control, so the
  handler of a disabled control does not run. \<open>Settle i outcome now\<close> settles the
  request at position \<open>i\<close> of \<open>pending\<close>; times are the values of \<^verbatim>\<open>new Date()\<close>.
\<close>

datatype event =
    TypeCode jsstring
  | SelectLanguage jsstring
  | ClickAnalyze
  | ClickClear
  | ClickCopy bool
  | TypeChat jsstring
  | ClickSend nat
  | PressEnter nat
  | ClickExport
  | ClickDismiss
  | Settle nat fetch_outcome nat

definition settle :: "in_flight \<Rightarrow> fetch_outcome \<Rightarrow> nat \<Rightarrow> app \<Rightarrow> app" where
  "settle req outcome now a =
     (case req of
        Analyzing code language \<Rightarrow> onAnalyze_settle code (analyzeCode code outcome) a
      | Sending question \<Rightarrow> onChatSend_settle (sendFollowUp outcome) now a)"

definition step :: "app \<Rightarrow> event \<Rightarrow> app" where
  "step a e =
     (case e of
        TypeCode v \<Rightarrow>
          if codeInput_disabled (ui a) then a
          else onCodeInput (a\<lparr>ui := (ui a)\<lparr>codeInput_value := v\<rparr>\<rparr>)
      | SelectLanguage l \<Rightarrow>
          if languageSelect_disabled (ui a) then a
          else onLanguageChange (a\<lparr>ui := (ui a)\<lparr>languageSelect_value := l\<rparr>\<rparr>)
      | ClickAnalyze \<Rightarrow> if analyzeBtn_disabled (ui a) then a else onAnalyze_start a
      | ClickClear \<Rightarrow> if clearBtn_disabled (ui a) then a else onClear a
      | ClickCopy copied \<Rightarrow> onCopy copied a
      | TypeChat v \<Rightarrow>
          if chatInput_disabled (ui a) then a else a\<lparr>ui := (ui a)\<lparr>chatInput_value := v\<rparr>\<rparr>
      | ClickSend now \<Rightarrow> if chatSendBtn_disabled (ui a) then a else onChatSend_start now a
      | PressEnter now \<Rightarrow> if chatInput_disabled (ui a) then a else onChatSend_start now a
      | ClickExport \<Rightarrow> onExportChat a
      | ClickDismiss \<Rightarrow> onDismissError a
      | Settle i outcome now \<Rightarrow>
          if i < length (pending a)
          then settle (pending a ! i) outcome now
                 (a\<lparr>pending := take i (pending a) @ drop (Suc i) (pending a)\<rparr>)
          else a)"

definition run :: "app \<Rightarrow> event list \<Rightarrow> app" where
  "run a es = foldl step a es"

text \<open>
  The page once the key \<open>k\<close> is loaded and the Clear button has been pressed: every
  modelled property is then one that \<^verbatim>\<open>reset\<close> of ui.js or state.js has written.
\<close>

definition blank_ui :: ui where
  "blank_ui =
     \<lparr> analyzeBtn_disabled = True, clearBtn_disabled = False, codeInput_disabled = False,
       languageSelect_disabled = False, chatSendBtn_disabled = False,
       chatInput_disabled = False, codeInput_value = [], languageSelect_value = js ''auto'',
       chatInput_value = [], loadingIndicator_hidden = True, errorBanner_hidden = True,
       errorMessage = None, resultsSection_hidden = True, chatPanel_hidden = True,
       chatLog = [] \<rparr>"

definition blank_app :: "jsstring \<Rightarrow> app" where
  "blank_app k = \<lparr> state = setApiKey k initial_state, ui = blank_ui, pending = [] \<rparr>"

text \<open>
  The envelope of the Gemini endpoint around a generated text, as the repository's tests
  mock it: \<^verbatim>\<open>{candidates: [{content: {parts: [{text: t}]}}]}\<close>.
\<close>

definition envelope :: "jsstring \<Rightarrow> json" where
  "envelope t =
     JObj [(js ''candidates'',
            JArr [JObj [(js ''content'',
                         JObj [(js ''parts'', JArr [JObj [(js ''text'', JStr t)]])])]])]"

section \<open>One analysis at a time\<close>

text \<open>
  The number of analysis requests that have not settled, and the guard the page keeps
  on them: there is at most one, and while there is one the Analyze button, the code
  input and the Clear button are disabled (as \<^verbatim>\<open>setLoading(true)\<close> left them).
\<close>

definition analysing :: "in_flight \<Rightarrow> bool" where
  "analysing req = (case req of Analyzing code language \<Rightarrow> True | Sending question \<Rightarrow> False)"

definition analyses_in_flight :: "app \<Rightarrow> nat" where
  "analyses_in_flight a = length (filter analysing (pending a))"

definition analyze_guarded :: "app \<Rightarrow> bool" where
  "analyze_guarded a \<longleftrightarrow>
     analyses_in_flight a \<le> 1 \<and>
     (analyses_in_flight a = 1 \<longrightarrow>
        analyzeBtn_disabled (ui a) \<and> codeInput_disabled (ui a) \<and> clearBtn_disabled (ui a))"





section \<open>Example pages\<close>

text \<open>
  A 2xx response whose envelope holds the text \<open>t\<close>, the submitted code and the model's
  report of the examples, and two pages: one where the user has typed a question before
  any analysis, and the page the events of \<open>analysed_page\<close> lead to from the blank page
  (code typed, Analyze clicked, the request answered with the report, a question typed).
\<close>

definition replying :: "jsstring \<Rightarrow> fetch_outcome" where
  "replying t = Resolved \<lparr>status = 200, json_body = Some (envelope t)\<rparr>"

definition sample_code :: jsstring where
  "sample_code = js ''function f(a,b,c,d,e){}''"

definition sample_report :: jsstring where
  \<open>sample_report = js ''{"summary":"ok","smells":[],"refactored_code":"function f(x){}"}''\<close>

definition asking :: "jsstring \<Rightarrow> jsstring \<Rightarrow> app" where
  "asking k q =
     \<lparr> state = setApiKey k initial_state, ui = blank_ui\<lparr>chatInput_value := q\<rparr>, pending = [] \<rparr>"

definition analysed_page :: app where
  "analysed_page =
     run (blank_app (js ''key''))
       [TypeCode sample_code, ClickAnalyze, Settle 0 (replying sample_report) 1,
        TypeChat (js ''why?'')]"

section \<open>Properties of the completion client\<close>

text \<open>
  C10. The credential travels in the \<^verbatim>\<open>x-goog-api-key\<close> header only: the URL is the
  constant \<open>GEMINI_ENDPOINT\<close> whatever the credential, and two requests that differ in
  the credential alone differ in that header's value alone (same URL, same method, same
  body, same timeout).
\<close>

theorem credential_only_in_header:
  "url (callGemini_request prompt k forceJson) = GEMINI_ENDPOINT
   \<and> url (callGemini_request prompt k1 forceJson) = url (callGemini_request prompt k2 forceJson)
   \<and> headers (callGemini_request prompt k forceJson) =
       [(js ''Content-Type'', js ''application/json''), (js ''x-goog-api-key'', k)]
   \<and> callGemini_request prompt k1 forceJson =
       (callGemini_request prompt k2 forceJson)
         \<lparr> headers := [(js ''Content-Type'', js ''application/json''), (js ''x-goog-api-key'', k1)] \<rparr>"
  by (simp add: callGemini_request_def)

text \<open>
  What \<^verbatim>\<open>callGemini\<close> makes of a settled \<^verbatim>\<open>fetch\<close>, case by case, and the limit its
  request carries.
\<close>

lemma callGemini_settled:
  "(name = js ''TimeoutError'' \<or> name = js ''AbortError''
      \<longrightarrow> callGemini (Rejected name) = Inl Timeout)
   \<and> (name \<noteq> js ''TimeoutError'' \<and> name \<noteq> js ''AbortError''
      \<longrightarrow> callGemini (Rejected name) = Inl NetworkError)
   \<and> (status r = 400 \<longrightarrow> callGemini (Resolved r) = Inl BadCredential)
   \<and> (status r = 401 \<or> status r = 403 \<longrightarrow> callGemini (Resolved r) = Inl Unauthorized)
   \<and> (status r = 429 \<longrightarrow> callGemini (Resolved r) = Inl RateLimited)
   \<and> (\<not> ok r \<and> status r \<noteq> 400 \<and> status r \<noteq> 401 \<and> status r \<noteq> 403 \<and> status r \<noteq> 429
      \<longrightarrow> callGemini (Resolved r) = Inl (EndpointError (status r)))
   \<and> (ok r \<and> json_body r = None \<longrightarrow> callGemini (Resolved r) = Inl MalformedEnvelope)
   \<and> (ok r \<and> json_body r = Some data \<and> (\<forall>t. envelope_text data \<noteq> Some (JStr t))
      \<longrightarrow> callGemini (Resolved r) = Inl NoContent)
   \<and> (ok r \<and> json_body r = Some data \<and> envelope_text data = Some (JStr t) \<and> trim t = []
      \<longrightarrow> callGemini (Resolved r) = Inl NoContent)
   \<and> (ok r \<and> json_body r = Some data \<and> envelope_text data = Some (JStr t) \<and> trim t \<noteq> []
      \<longrightarrow> callGemini (Resolved r) = Inr t)"
proof -
  have ok_codes: "ok r \<Longrightarrow> status r \<noteq> 400 \<and> status r \<noteq> 401 \<and> status r \<noteq> 403 \<and> status r \<noteq> 429"
    by (auto simp: ok_def)
  have no_text: "(\<forall>t. envelope_text data \<noteq> Some (JStr t)) \<Longrightarrow>
      (case envelope_text data of
         Some (JStr t) \<Rightarrow> if trim t = [] then Inl NoContent else Inr t
       | _ \<Rightarrow> Inl NoContent) = Inl NoContent"
    by (auto split: option.splits json.splits)
  show ?thesis
    using ok_codes no_text by (auto simp: callGemini_def)
qed

lemma limit_is_30_seconds: "timeout_ms (callGemini_request prompt k forceJson) = 30000"
  by (simp add: callGemini_request_def REQUEST_TIMEOUT_MS_def)

lemma TypeError_name: "js ''TypeError'' \<noteq> js ''TimeoutError''" "js ''TypeError'' \<noteq> js ''AbortError''"
  by (simp_all add: js_def)

lemma sent_late:
  "callGemini_sent prompt k forceJson Hangs = Inl Timeout"
  "30000 \<le> t \<Longrightarrow> callGemini_sent prompt k forceJson (Fails t) = Inl Timeout"
  "30000 \<le> t \<Longrightarrow> callGemini_sent prompt k forceJson (Head t st b) = Inl Timeout"
  by (simp_all add: callGemini_sent_def fetch_settles_def limit_is_30_seconds callGemini_def)

lemma sent_failed:
  "t < 30000 \<Longrightarrow> callGemini_sent prompt k forceJson (Fails t) = Inl NetworkError"
  by (simp add: callGemini_sent_def fetch_settles_def limit_is_30_seconds callGemini_def
      TypeError_name)

lemma sent_answered:
  "t < 30000 \<Longrightarrow> callGemini_sent prompt k forceJson (Head t st b)
     = callGemini (Resolved \<lparr>status = st, json_body = read_body 30000 b\<rparr>)"
  by (simp add: callGemini_sent_def fetch_settles_def limit_is_30_seconds)

text \<open>
  C6 (as amended). \<^verbatim>\<open>callGemini\<close> sends its request under a signal of 30000
  milliseconds and classifies what comes of it:
  \<^item> no head of a response within the 30 seconds (nothing comes, or the connection fails
    or the head arrives only after them): \<open>Timeout\<close>;
  \<^item> the connection fails before that: \<open>NetworkError\<close>;
  \<^item> a head in time with status 400: \<open>BadCredential\<close>; 401 or 403: \<open>Unauthorized\<close>;
    429: \<open>RateLimited\<close>; any other status outside 200..299: \<open>EndpointError\<close> with the
    status;
  \<^item> a 2xx response whose body is whole within the 30 seconds and is not JSON:
    \<open>MalformedEnvelope\<close>;
  \<^item> such a body that is JSON and whose text field is absent, is not a string, or is
    blank (empty after \<^verbatim>\<open>trim()\<close>): \<open>NoContent\<close>, the second message of the spec's
    MalformedEnvelope;
  \<^item> otherwise the text field itself, untrimmed.
  Nothing is said of a 2xx response whose body does not arrive whole in time.
\<close>

theorem callGemini_classifies:
  "timeout_ms (callGemini_request prompt k forceJson) = 30000
   \<and> callGemini_sent prompt k forceJson Hangs = Inl Timeout
   \<and> (30000 \<le> t \<longrightarrow>
        callGemini_sent prompt k forceJson (Fails t) = Inl Timeout
        \<and> callGemini_sent prompt k forceJson (Head t st b) = Inl Timeout)
   \<and> (t < 30000 \<longrightarrow>
        callGemini_sent prompt k forceJson (Fails t) = Inl NetworkError
        \<and> (st = 400 \<longrightarrow> callGemini_sent prompt k forceJson (Head t st b) = Inl BadCredential)
        \<and> (st = 401 \<or> st = 403 \<longrightarrow>
             callGemini_sent prompt k forceJson (Head t st b) = Inl Unauthorized)
        \<and> (st = 429 \<longrightarrow> callGemini_sent prompt k forceJson (Head t st b) = Inl RateLimited)
        \<and> ((st < 200 \<or> 299 < st) \<and> st \<noteq> 400 \<and> st \<noteq> 401 \<and> st \<noteq> 403 \<and> st \<noteq> 429 \<longrightarrow>
             callGemini_sent prompt k forceJson (Head t st b) = Inl (EndpointError st))
        \<and> (200 \<le> st \<and> st \<le> 299 \<and> u < 30000 \<longrightarrow>
             callGemini_sent prompt k forceJson (Head t st (Complete u None))
               = Inl MalformedEnvelope
             \<and> ((\<forall>payload. envelope_text data \<noteq> Some (JStr payload)) \<longrightarrow>
                  callGemini_sent prompt k forceJson (Head t st (Complete u (Some data)))
                    = Inl NoContent)
             \<and> (envelope_text data = Some (JStr payload) \<and> trim payload = [] \<longrightarrow>
                  callGemini_sent prompt k forceJson (Head t st (Complete u (Some data)))
                    = Inl NoContent)
             \<and> (envelope_text data = Some (JStr payload) \<and> trim payload \<noteq> [] \<longrightarrow>
                  callGemini_sent prompt k forceJson (Head t st (Complete u (Some data)))
                    = Inr payload)))"
proof -
  have codes: "t < 30000 \<Longrightarrow>
      (st = 400 \<longrightarrow> callGemini_sent prompt k forceJson (Head t st b) = Inl BadCredential)
      \<and> (st = 401 \<or> st = 403 \<longrightarrow>
           callGemini_sent prompt k forceJson (Head t st b) = Inl Unauthorized)
      \<and> (st = 429 \<longrightarrow> callGemini_sent prompt k forceJson (Head t st b) = Inl RateLimited)
      \<and> ((st < 200 \<or> 299 < st) \<and> st \<noteq> 400 \<and> st \<noteq> 401 \<and> st \<noteq> 403 \<and> st \<noteq> 429 \<longrightarrow>
           callGemini_sent prompt k forceJson (Head t st b) = Inl (EndpointError st))"
    using callGemini_settled [where r = "\<lparr>status = st, json_body = read_body 30000 b\<rparr>"]
    by (auto simp: sent_answered ok_def)
  have bodies: "t < 30000 \<Longrightarrow> 200 \<le> st \<and> st \<le> 299 \<and> u < 30000 \<Longrightarrow>
      callGemini_sent prompt k forceJson (Head t st (Complete u None)) = Inl MalformedEnvelope
      \<and> ((\<forall>payload. envelope_text data \<noteq> Some (JStr payload)) \<longrightarrow>
           callGemini_sent prompt k forceJson (Head t st (Complete u (Some data))) = Inl NoContent)
      \<and> (envelope_text data = Some (JStr payload) \<and> trim payload = [] \<longrightarrow>
           callGemini_sent prompt k forceJson (Head t st (Complete u (Some data))) = Inl NoContent)
      \<and> (envelope_text data = Some (JStr payload) \<and> trim payload \<noteq> [] \<longrightarrow>
           callGemini_sent prompt k forceJson (Head t st (Complete u (Some data))) = Inr payload)"
    using callGemini_settled [where r = "\<lparr>status = st, json_body = None\<rparr>"]
    using callGemini_settled [where r = "\<lparr>status = st, json_body = Some data\<rparr>"
        and data = "data" and t = "payload"]
    by (simp add: sent_answered read_body_def ok_def)
  show ?thesis
    using codes bodies by (simp add: limit_is_30_seconds sent_late sent_failed)
qed


theorem callGemini_classifies_witness:
  "callGemini_sent [] (js ''key'') True Hangs = Inl Timeout
   \<and> callGemini_sent [] (js ''key'') True (Fails 30000) = Inl Timeout
   \<and> callGemini_sent [] (js ''key'') True (Head 30000 200 (Complete 30001 None)) = Inl Timeout
   \<and> callGemini_sent [] (js ''key'') True (Fails 10) = Inl NetworkError
   \<and> callGemini_sent [] (js ''key'') True (Head 10 400 Stalls) = Inl BadCredential
   \<and> callGemini_sent [] (js ''key'') True (Head 10 403 Stalls) = Inl Unauthorized
   \<and> callGemini_sent [] (js ''key'') True (Head 10 429 Stalls) = Inl RateLimited
   \<and> callGemini_sent [] (js ''key'') True (Head 10 500 Stalls) = Inl (EndpointError 500)
   \<and> callGemini_sent [] (js ''key'') True (Head 10 200 (Complete 20 None)) = Inl MalformedEnvelope
   \<and> callGemini_sent [] (js ''key'') True (Head 10 200 (Complete 20 (Some (JObj []))))
       = Inl NoContent
   \<and> callGemini_sent [] (js ''key'') True (Head 10 200 (Complete 20 (Some (envelope []))))
       = Inl NoContent
   \<and> callGemini_sent [] (js ''key'') True (Head 10 200 (Complete 20 (Some (envelope (js ''hi'')))))
       = Inr (js ''hi'')"
proof -
  have text_of: "envelope_text (envelope t) = Some (JStr t)" for t
    by (simp add: envelope_def envelope_text_def opt_chain_def)
  have no_text: "\<forall>payload. envelope_text (JObj []) \<noteq> Some (JStr payload)"
    by (simp add: envelope_text_def opt_chain_def)
  have hi: "trim (js ''hi'') \<noteq> []"
    by (simp add: js_def trim_def isWhiteSpace_def)
  have b1: "callGemini_sent [] (js ''key'') True Hangs = Inl Timeout"
    using callGemini_classifies [where prompt = "[]" and k = "js ''key''" and forceJson = True]
    by simp
  have b2: "callGemini_sent [] (js ''key'') True (Fails 30000) = Inl Timeout
      \<and> callGemini_sent [] (js ''key'') True (Head 30000 200 (Complete 30001 None)) = Inl Timeout"
    using callGemini_classifies [where prompt = "[]" and k = "js ''key''" and forceJson = True
        and t = 30000 and st = 200 and b = "Complete 30001 None"]
    by simp
  have b3: "callGemini_sent [] (js ''key'') True (Fails 10) = Inl NetworkError
      \<and> callGemini_sent [] (js ''key'') True (Head 10 400 Stalls) = Inl BadCredential"
    using callGemini_classifies [where prompt = "[]" and k = "js ''key''" and forceJson = True
        and t = 10 and st = 400 and b = Stalls]
    by simp
  have b4: "callGemini_sent [] (js ''key'') True (Head 10 403 Stalls) = Inl Unauthorized"
    using callGemini_classifies [where prompt = "[]" and k = "js ''key''" and forceJson = True
        and t = 10 and st = 403 and b = Stalls]
    by simp
  have b5: "callGemini_sent [] (js ''key'') True (Head 10 429 Stalls) = Inl RateLimited"
    using callGemini_classifies [where prompt = "[]" and k = "js ''key''" and forceJson = True
        and t = 10 and st = 429 and b = Stalls]
    by simp
  have b6: "callGemini_sent [] (js ''key'') True (Head 10 500 Stalls) = Inl (EndpointError 500)"
    using callGemini_classifies [where prompt = "[]" and k = "js ''key''" and forceJson = True
        and t = 10 and st = 500 and b = Stalls]
    by simp
  have b7: "callGemini_sent [] (js ''key'') True (Head 10 200 (Complete 20 None))
        = Inl MalformedEnvelope
      \<and> callGemini_sent [] (js ''key'') True (Head 10 200 (Complete 20 (Some (JObj []))))
        = Inl NoContent"
    using callGemini_classifies [where prompt = "[]" and k = "js ''key''" and forceJson = True
        and t = 10 and st = 200 and u = 20 and data = "JObj []"] no_text
    by simp
  have b8: "callGemini_sent [] (js ''key'') True (Head 10 200 (Complete 20 (Some (envelope []))))
        = Inl NoContent"
    using callGemini_classifies [where prompt = "[]" and k = "js ''key''" and forceJson = True
        and t = 10 and st = 200 and u = 20 and data = "envelope []" and payload = "[]"]
    by (simp add: text_of trim_def)
  have b9: "callGemini_sent [] (js ''key'') True
        (Head 10 200 (Complete 20 (Some (envelope (js ''hi''))))) = Inr (js ''hi'')"
    using callGemini_classifies [where prompt = "[]" and k = "js ''key''" and forceJson = True
        and t = 10 and st = 200 and u = 20 and data = "envelope (js ''hi'')" and payload = "js ''hi''"]
      hi
    by (simp add: text_of)
  show ?thesis
    using b1 b2 b3 b4 b5 b6 b7 b8 b9 by blast
qed

text \<open>
  C6 as stated fails three times over. A text field that is present and not empty but
  blank is not returned verbatim. After the head of a 2xx response, the 30 seconds
  running out while the body is read (a body that never ends, or ends at 30000) is
  reported as a malformed response, not as a timeout, and the connection breaking is
  reported as a malformed response, not as a network error: the \<^verbatim>\<open>catch\<close> around
  \<^verbatim>\<open>response.json()\<close> does not look at what it caught.
\<close>

theorem callGemini_counterexample:
  "js '' '' \<noteq> []
   \<and> callGemini_sent [] (js ''key'') True
        (Head 10 200 (Complete 20 (Some (envelope (js '' ''))))) = Inl NoContent
   \<and> callGemini_sent [] (js ''key'') True (Head 10 200 Stalls) = Inl MalformedEnvelope
   \<and> callGemini_sent [] (js ''key'') True
        (Head 10 200 (Complete 30000 (Some (envelope (js ''hi''))))) = Inl MalformedEnvelope
   \<and> callGemini_sent [] (js ''key'') True (Head 10 200 (Broken 20)) = Inl MalformedEnvelope"
proof -
  have blank: "callGemini (Resolved \<lparr>status = 200, json_body = Some (envelope (js '' ''))\<rparr>)
      = Inl NoContent"
    by (simp add: callGemini_def ok_def envelope_def envelope_text_def opt_chain_def js_def
        trim_def isWhiteSpace_def)
  have unread: "callGemini (Resolved \<lparr>status = 200, json_body = None\<rparr>) = Inl MalformedEnvelope"
    by (simp add: callGemini_def ok_def)
  have "js '' '' \<noteq> []"
    by (simp add: js_def)
  then show ?thesis
    by (simp add: sent_answered read_body_def blank unread)
qed

section \<open>Properties of analyzeCode\<close>

text \<open>
  A raw text that \<^verbatim>\<open>analyzeCode\<close> accepts parses, and the result is the repair of the
  parsed value.
\<close>

lemma normalise_accepts:
  assumes "analyzeCode_normalise rawText code = Inr r"
  shows "\<exists>v. JSON_parse (strip_fences rawText) = Some v \<and> r = repair v code"
proof (cases "JSON_parse (strip_fences rawText)")
  case None
  with assms show ?thesis by (simp add: analyzeCode_normalise_def)
next
  case (Some v)
  with assms have "r = repair v code"
    by (cases v) (simp_all add: analyzeCode_normalise_def)
  with Some show ?thesis by simp
qed

text \<open>
  C1 (as amended). For every raw text \<^verbatim>\<open>analyzeCode\<close> accepts, the returned
  \<open>smells\<close> are the elements of the parsed value's \<^verbatim>\<open>smells\<close> array as they were
  parsed, in their order, when that property is an array, and no elements otherwise: no
  element is repaired and none is dropped.
\<close>

theorem smells_as_parsed:
  "analyzeCode_normalise rawText code = Inr r \<Longrightarrow>
     \<exists>v. JSON_parse (strip_fences rawText) = Some v
       \<and> smells r = (case get_prop v (js ''smells'') of Some (JArr es) \<Rightarrow> es | _ \<Rightarrow> [])"
  using normalise_accepts [of rawText code r] by (auto simp: repair_def)

theorem smells_as_parsed_witness:
  \<open>analyzeCode_normalise (js ''{"smells":[7,{}]}'') (js ''x = 1'')
     = Inr \<lparr>summary = [], smells = [JNum (js ''7''), JObj []], refactored_code = js ''x = 1''\<rparr>
   \<and> JSON_parse (strip_fences (js ''{"smells":[7,{}]}''))
     = Some (JObj [(js ''smells'', JArr [JNum (js ''7''), JObj []])])
   \<and> smells \<lparr>summary = [], smells = [JNum (js ''7''), JObj []], refactored_code = js ''x = 1''\<rparr>
     = (case get_prop (JObj [(js ''smells'', JArr [JNum (js ''7''), JObj []])]) (js ''smells'') of
          Some (JArr es) \<Rightarrow> es | _ \<Rightarrow> [])\<close>
proof -
  have run: \<open>analyzeCode_normalise (js ''{"smells":[7,{}]}'') (js ''x = 1'')
     = Inr \<lparr>summary = [], smells = [JNum (js ''7''), JObj []], refactored_code = js ''x = 1''\<rparr>\<close>
    by code_simp
  have parsed: \<open>JSON_parse (strip_fences (js ''{"smells":[7,{}]}''))
     = Some (JObj [(js ''smells'', JArr [JNum (js ''7''), JObj []])])\<close>
    by code_simp
  from smells_as_parsed [OF run] obtain v where
    v: \<open>JSON_parse (strip_fences (js ''{"smells":[7,{}]}'')) = Some v\<close> and
    s: \<open>smells \<lparr>summary = [], smells = [JNum (js ''7''), JObj []], refactored_code = js ''x = 1''\<rparr>
       = (case get_prop v (js ''smells'') of Some (JArr es) \<Rightarrow> es | _ \<Rightarrow> [])\<close>
    by blast
  from v parsed have \<open>v = JObj [(js ''smells'', JArr [JNum (js ''7''), JObj []])]\<close>
    by simp
  with s run parsed show ?thesis by blast
qed

text \<open>
  C1 as stated fails: of the two smells of this accepted text, the number 7 is not an
  object and is kept, and the object without a name, a severity, a location or an
  explanation is kept as it is.
\<close>

theorem smells_not_repaired_counterexample:
  \<open>analyzeCode_normalise (js ''{"smells":[7,{}]}'') (js ''x = 1'')
     = Inr \<lparr>summary = [], smells = [JNum (js ''7''), JObj []], refactored_code = js ''x = 1''\<rparr>\<close>
  by code_simp

text \<open>
  C3 (as amended). For every raw text \<^verbatim>\<open>analyzeCode\<close> accepts, the returned
  \<open>refactored_code\<close> is the parsed value's \<^verbatim>\<open>refactored_code\<close> when that is a string,
  the empty string included, and the submitted code when it is missing or not a string.
\<close>

theorem refactored_code_fallback:
  "analyzeCode_normalise rawText code = Inr r \<Longrightarrow>
     \<exists>v. JSON_parse (strip_fences rawText) = Some v
       \<and> refactored_code r =
           (case get_prop v (js ''refactored_code'') of Some (JStr s) \<Rightarrow> s | _ \<Rightarrow> code)"
  using normalise_accepts [of rawText code r] by (auto simp: repair_def)

theorem refactored_code_fallback_witness:
  \<open>analyzeCode_normalise (js ''{"refactored_code":7}'') (js ''x = 1'')
     = Inr \<lparr>summary = [], smells = [], refactored_code = js ''x = 1''\<rparr>
   \<and> JSON_parse (strip_fences (js ''{"refactored_code":7}''))
     = Some (JObj [(js ''refactored_code'', JNum (js ''7''))])
   \<and> refactored_code \<lparr>summary = [], smells = [], refactored_code = js ''x = 1''\<rparr>
     = (case get_prop (JObj [(js ''refactored_code'', JNum (js ''7''))]) (js ''refactored_code'') of
          Some (JStr s) \<Rightarrow> s | _ \<Rightarrow> js ''x = 1'')\<close>
proof -
  have run: \<open>analyzeCode_normalise (js ''{"refactored_code":7}'') (js ''x = 1'')
     = Inr \<lparr>summary = [], smells = [], refactored_code = js ''x = 1''\<rparr>\<close>
    by code_simp
  have parsed: \<open>JSON_parse (strip_fences (js ''{"refactored_code":7}''))
     = Some (JObj [(js ''refactored_code'', JNum (js ''7''))])\<close>
    by code_simp
  from refactored_code_fallback [OF run] obtain v where
    v: \<open>JSON_parse (strip_fences (js ''{"refactored_code":7}'')) = Some v\<close> and
    s: \<open>refactored_code \<lparr>summary = [], smells = [], refactored_code = js ''x = 1''\<rparr>
       = (case get_prop v (js ''refactored_code'') of Some (JStr s) \<Rightarrow> s | _ \<Rightarrow> js ''x = 1'')\<close>
    by blast
  from v parsed have \<open>v = JObj [(js ''refactored_code'', JNum (js ''7''))]\<close>
    by simp
  with s run parsed show ?thesis by blast
qed

text \<open>
  C3 as stated fails: an empty \<^verbatim>\<open>refactored_code\<close> stays empty, the submitted code
  \<^verbatim>\<open>x = 1\<close> does not replace it.
\<close>

theorem refactored_code_empty_counterexample:
  \<open>analyzeCode_normalise (js ''{"refactored_code":""}'') (js ''x = 1'')
     = Inr \<lparr>summary = [], smells = [], refactored_code = []\<rparr>
   \<and> js ''x = 1'' \<noteq> []\<close>
proof -
  have \<open>analyzeCode_normalise (js ''{"refactored_code":""}'') (js ''x = 1'')
     = Inr \<lparr>summary = [], smells = [], refactored_code = []\<rparr>\<close>
    by code_simp
  moreover have \<open>js ''x = 1'' \<noteq> []\<close> by (simp add: js_def)
  ultimately show ?thesis by blast
qed

text \<open>
  Where \<^verbatim>\<open>analyzeCode\<close> fails after the request: the parse error on a text that is not
  JSON, and on no other text; no failure on an object or an array; a TypeError on every
  other JSON value.
\<close>

lemma normalise_outcomes:
  "JSON_parse (strip_fences rawText) = None
     \<Longrightarrow> analyzeCode_normalise rawText code = Inl ParseError"
  "JSON_parse (strip_fences rawText) = Some (JObj members)
     \<Longrightarrow> analyzeCode_normalise rawText code = Inr (repair (JObj members) code)"
  "JSON_parse (strip_fences rawText) = Some (JArr es)
     \<Longrightarrow> analyzeCode_normalise rawText code = Inr (repair (JArr es) code)"
  "JSON_parse (strip_fences rawText) = Some v \<Longrightarrow> v = JNull \<or> v = JBool b \<or> v = JNum n \<or> v = JStr t
     \<Longrightarrow> analyzeCode_normalise rawText code = Inl TypeError"
  by (auto simp: analyzeCode_normalise_def)

lemma parse_error_only_on_bad_json:
  "analyzeCode_normalise rawText code = Inl ParseError
     \<longleftrightarrow> JSON_parse (strip_fences rawText) = None"
  by (auto simp: analyzeCode_normalise_def split: option.splits json.splits)

text \<open>
  C4. The text \<^verbatim>\<open>null\<close> is valid JSON, and \<^verbatim>\<open>analyzeCode\<close> fails on it with a
  TypeError, which is neither success nor the parse error.
\<close>

theorem normalise_null_TypeError:
  \<open>JSON_parse (strip_fences (js ''null'')) = Some JNull
   \<and> analyzeCode_normalise (js ''null'') code = Inl TypeError\<close>
proof -
  have p: \<open>JSON_parse (strip_fences (js ''null'')) = Some JNull\<close> by code_simp
  then show ?thesis by (simp add: analyzeCode_normalise_def)
qed

section \<open>Properties of the session\<close>

text \<open>The example pages, computed.\<close>

lemma js_eq_Nil: "js s = [] \<longleftrightarrow> s = []"
  by (simp add: js_def)

lemma callGemini_replying: "trim t \<noteq> [] \<Longrightarrow> callGemini (replying t) = Inr t"
  by (simp add: callGemini_def replying_def ok_def envelope_def envelope_text_def opt_chain_def)

lemma sample_report_parsed:
  "analyzeCode_normalise sample_report sample_code
   = Inr \<lparr>summary = js ''ok'', smells = [], refactored_code = js ''function f(x){}''\<rparr>"
  by code_simp

lemma sample_report_not_blank: "trim sample_report \<noteq> []"
  by code_simp

lemma sample_code_length: "length sample_code = 23"
  by (simp add: sample_code_def js_def)

lemma analysed_page_eq:
  "analysed_page =
     \<lparr> state = \<lparr> apiKey = Some (js ''key''), currentCode = sample_code,
                 currentLanguage = js ''auto'',
                 analysisResult = Some \<lparr>summary = js ''ok'', smells = [],
                                         refactored_code = js ''function f(x){}''\<rparr>,
                 chatHistory = [] \<rparr>,
       ui = \<lparr> analyzeBtn_disabled = False, clearBtn_disabled = False,
              codeInput_disabled = False, languageSelect_disabled = False,
              chatSendBtn_disabled = False, chatInput_disabled = False,
              codeInput_value = sample_code, languageSelect_value = js ''auto'',
              chatInput_value = js ''why?'', loadingIndicator_hidden = True,
              errorBanner_hidden = True, errorMessage = None,
              resultsSection_hidden = False, chatPanel_hidden = False, chatLog = [] \<rparr>,
       pending = [] \<rparr>"
proof -
  have a: "analyzeCode sample_code (replying sample_report)
      = Inr \<lparr>summary = js ''ok'', smells = [], refactored_code = js ''function f(x){}''\<rparr>"
    by (simp add: analyzeCode_def callGemini_replying sample_report_not_blank sample_report_parsed)
  show ?thesis
    by (simp add: analysed_page_def run_def step_def blank_app_def blank_ui_def
        setApiKey_def initial_state_def onCodeInput_def setCurrentCode_def
        setAnalyzeButtonEnabled_def sample_code_length onAnalyze_start_def no_key_def
        setLoading_def hideError_def settle_def a onAnalyze_settle_def setAnalysisResult_def
        renderResults_def showChatPanel_def Let_def js_eq_Nil)
qed

lemma trim_why: "trim (js ''why?'') = js ''why?''"
  by (simp add: js_def trim_def isWhiteSpace_def)


lemma callGemini_429: "callGemini (Resolved \<lparr>status = 429, json_body = None\<rparr>) = Inl RateLimited"
  by (simp add: callGemini_def)

text \<open>
  C9. \<^verbatim>\<open>reset\<close> of state.js is total, puts \<open>currentCode\<close>, \<open>currentLanguage\<close>,
  \<open>analysisResult\<close> and \<open>chatHistory\<close> back to the values the module starts with, and
  leaves \<open>apiKey\<close> as it was; the Clear handler resets the session state by it.
\<close>

theorem reset_clears_session:
  "state_reset s =
     \<lparr> apiKey = apiKey s, currentCode = currentCode initial_state,
       currentLanguage = currentLanguage initial_state,
       analysisResult = analysisResult initial_state,
       chatHistory = chatHistory initial_state \<rparr>
   \<and> currentCode (state_reset s) = []
   \<and> currentLanguage (state_reset s) = js ''auto''
   \<and> analysisResult (state_reset s) = None
   \<and> chatHistory (state_reset s) = []
   \<and> apiKey (state_reset s) = apiKey s
   \<and> state (onClear a) = state_reset (state a)"
  by (simp add: state_reset_def initial_state_def onClear_def)

text \<open>
  C5 (as amended). When no analysis result exists, \<^verbatim>\<open>onChatSend\<close> returns at its first
  line: nothing is appended to the chat history, no request is issued and nothing is
  reported. The whole page, error banner included, is as it was, whether the question
  came by the Send button or by the Enter key.
\<close>

theorem chat_without_analysis_silent:
  "analysisResult (state a) = None \<Longrightarrow>
     onChatSend_start now a = a
     \<and> step a (ClickSend now) = a
     \<and> step a (PressEnter now) = a"
  by (simp add: onChatSend_start_def step_def)

theorem chat_without_analysis_silent_witness:
  "analysisResult (state (asking (js ''key'') (js ''why?''))) = None
   \<and> onChatSend_start 5 (asking (js ''key'') (js ''why?'')) = asking (js ''key'') (js ''why?'')
   \<and> step (asking (js ''key'') (js ''why?'')) (ClickSend 5) = asking (js ''key'') (js ''why?'')
   \<and> step (asking (js ''key'') (js ''why?'')) (PressEnter 5) = asking (js ''key'') (js ''why?'')"
proof -
  have none: "analysisResult (state (asking (js ''key'') (js ''why?''))) = None"
    by (simp add: asking_def setApiKey_def initial_state_def)
  from chat_without_analysis_silent [OF none, of 5] none show ?thesis by simp
qed

text \<open>
  C5 as stated fails in its first half: with a key loaded, a question typed and no
  analysis result, the Send handler reports no error at all. The banner stays hidden
  and empty.
\<close>

theorem chat_without_analysis_counterexample:
  "analysisResult (state (asking (js ''key'') (js ''why?''))) = None
   \<and> errorBanner_hidden (ui (step (asking (js ''key'') (js ''why?'')) (ClickSend 5)))
   \<and> errorMessage (ui (step (asking (js ''key'') (js ''why?'')) (ClickSend 5))) = None
   \<and> pending (step (asking (js ''key'') (js ''why?'')) (ClickSend 5)) = []"
  by (simp add: asking_def setApiKey_def initial_state_def step_def onChatSend_start_def
      blank_ui_def)

text \<open>
  C8. An analysis whose \<^verbatim>\<open>api.analyzeCode\<close> call fails, for whatever reason, leaves
  \<open>analysisResult\<close> as it was, and when the handler ran the error is what the banner
  shows. So does an analysis refused for a missing key, which issues no request. (Not a
  failure of \<^verbatim>\<open>api.analyzeCode\<close>: a result it returned is stored before it is rendered,
  and stays stored when \<^verbatim>\<open>renderResults\<close> then throws.)
\<close>

theorem failed_analyze_keeps_result:
  "(analyzeCode (currentCode (state a)) outcome = Inl e \<longrightarrow>
      analysisResult (state (run a [ClickAnalyze, Settle (length (pending a)) outcome t]))
        = analysisResult (state a)
      \<and> (\<not> analyzeBtn_disabled (ui a) \<and> \<not> no_key (apiKey (state a)) \<longrightarrow>
           errorMessage (ui (run a [ClickAnalyze, Settle (length (pending a)) outcome t])) = Some e
           \<and> \<not> errorBanner_hidden (ui (run a [ClickAnalyze, Settle (length (pending a)) outcome t]))))
   \<and> (no_key (apiKey (state a)) \<longrightarrow>
      onAnalyze_start a = a\<lparr>ui := showError MissingCredential (ui a)\<rparr>
      \<and> analysisResult (state (onAnalyze_start a)) = analysisResult (state a)
      \<and> pending (onAnalyze_start a) = pending a)"
proof -
  have missing: "no_key (apiKey (state a)) \<Longrightarrow>
      onAnalyze_start a = a\<lparr>ui := showError MissingCredential (ui a)\<rparr>"
    by (simp add: onAnalyze_start_def)
  have failing: "analysisResult (state (run a [ClickAnalyze, Settle (length (pending a)) outcome t]))
        = analysisResult (state a)
      \<and> (\<not> analyzeBtn_disabled (ui a) \<and> \<not> no_key (apiKey (state a)) \<longrightarrow>
           errorMessage (ui (run a [ClickAnalyze, Settle (length (pending a)) outcome t])) = Some e
           \<and> \<not> errorBanner_hidden (ui (run a [ClickAnalyze, Settle (length (pending a)) outcome t])))"
    if failed: "analyzeCode (currentCode (state a)) outcome = Inl e"
  proof (cases "analyzeBtn_disabled (ui a) \<or> no_key (apiKey (state a))")
    case True
    then show ?thesis
      by (auto simp: run_def step_def onAnalyze_start_def)
  next
    case False
    let ?code = "currentCode (state a)"
    let ?a1 = "a\<lparr>ui := setLoading True (hideError (ui a)),
        pending := pending a @ [Analyzing ?code (currentLanguage (state a))]\<rparr>"
    have started: "step a ClickAnalyze = ?a1"
      using False by (simp add: step_def onAnalyze_start_def Let_def)
    have settled: "step ?a1 (Settle (length (pending a)) outcome t)
        = onAnalyze_settle ?code (analyzeCode ?code outcome) (?a1\<lparr>pending := pending a\<rparr>)"
      by (simp add: step_def settle_def)
    have run: "run a [ClickAnalyze, Settle (length (pending a)) outcome t]
        = onAnalyze_settle ?code (Inl e) (?a1\<lparr>pending := pending a\<rparr>)"
      by (simp add: run_def started settled failed)
    show ?thesis
      using False
      by (simp add: run onAnalyze_settle_def showError_def setLoading_def
          setAnalyzeButtonEnabled_def)
  qed
  show ?thesis
    using missing failing by simp
qed

theorem failed_analyze_keeps_result_witness:
  "analyzeCode (currentCode (state analysed_page)) (Resolved \<lparr>status = 429, json_body = None\<rparr>)
     = Inl RateLimited
   \<and> analysisResult (state (run analysed_page
        [ClickAnalyze, Settle 0 (Resolved \<lparr>status = 429, json_body = None\<rparr>) 2]))
     = Some \<lparr>summary = js ''ok'', smells = [], refactored_code = js ''function f(x){}''\<rparr>
   \<and> errorMessage (ui (run analysed_page
        [ClickAnalyze, Settle 0 (Resolved \<lparr>status = 429, json_body = None\<rparr>) 2]))
     = Some RateLimited
   \<and> no_key (apiKey (state (blank_app [])))
   \<and> onAnalyze_start (blank_app []) = (blank_app [])\<lparr>ui := showError MissingCredential blank_ui\<rparr>
   \<and> analysisResult (state (onAnalyze_start (blank_app []))) = None"
proof -
  have failed: "analyzeCode (currentCode (state analysed_page))
      (Resolved \<lparr>status = 429, json_body = None\<rparr>) = Inl RateLimited"
    by (simp add: analyzeCode_def callGemini_429)
  have nk: "no_key (apiKey (state (blank_app [])))"
    by (simp add: blank_app_def setApiKey_def no_key_def)
  have facts: "length (pending analysed_page) = 0"
    "\<not> analyzeBtn_disabled (ui analysed_page)"
    "\<not> no_key (apiKey (state analysed_page))"
    "analysisResult (state analysed_page)
       = Some \<lparr>summary = js ''ok'', smells = [], refactored_code = js ''function f(x){}''\<rparr>"
    by (simp_all add: analysed_page_eq no_key_def js_eq_Nil)
  have blank: "analysisResult (state (blank_app [])) = None" "ui (blank_app []) = blank_ui"
    by (simp_all add: blank_app_def setApiKey_def initial_state_def)
  from failed_analyze_keeps_result [where a = analysed_page
      and outcome = "Resolved \<lparr>status = 429, json_body = None\<rparr>" and e = RateLimited and t = 2]
    failed_analyze_keeps_result [where a = "blank_app []"]
  show ?thesis
    using failed nk by (simp add: facts blank)
qed


text \<open>
  The case the last sentence names: a result with a smell that \<^verbatim>\<open>createSmellCard\<close>
  throws on is stored, the TypeError is what the banner shows, and the chat panel is
  not opened.
\<close>

lemma stored_before_rendered:
  assumes "list_ex createSmellCard_throws (smells result)"
  shows "analysisResult (state (onAnalyze_settle code (Inr result) a)) = Some result"
    and "errorMessage (ui (onAnalyze_settle code (Inr result) a)) = Some TypeError"
    and "chatPanel_hidden (ui (onAnalyze_settle code (Inr result) a)) = chatPanel_hidden (ui a)"
  using assms
  by (simp_all add: onAnalyze_settle_def renderResults_def setAnalysisResult_def showError_def
      setLoading_def setAnalyzeButtonEnabled_def Let_def)

section \<open>Properties of the page\<close>

text \<open>Every event keeps the guard on analysis requests.\<close>

lemma filter_without_nth:
  assumes "i < length xs"
  shows "length (filter P xs)
    = length (filter P (take i xs @ drop (Suc i) xs)) + (if P (xs ! i) then 1 else 0)"
proof -
  have "xs = take i xs @ xs ! i # drop (Suc i) xs"
    using assms by (rule id_take_nth_drop)
  then have "filter P xs = filter P (take i xs) @ filter P (xs ! i # drop (Suc i) xs)"
    by (metis filter_append)
  then show ?thesis by simp
qed

lemma guarded_TypeCode: "analyze_guarded a \<Longrightarrow> analyze_guarded (step a (TypeCode v))"
  by (auto simp: analyze_guarded_def analyses_in_flight_def step_def onCodeInput_def
      setAnalyzeButtonEnabled_def Let_def)

lemma guarded_SelectLanguage: "analyze_guarded a \<Longrightarrow> analyze_guarded (step a (SelectLanguage l))"
  by (auto simp: analyze_guarded_def analyses_in_flight_def step_def onLanguageChange_def)

lemma guarded_ClickAnalyze:
  assumes "analyze_guarded a"
  shows "analyze_guarded (step a ClickAnalyze)"
proof (cases "analyzeBtn_disabled (ui a)")
  case True
  with assms show ?thesis by (simp add: step_def)
next
  case False
  with assms have none: "analyses_in_flight a = 0"
    by (auto simp: analyze_guarded_def)
  show ?thesis
  proof (cases "no_key (apiKey (state a))")
    case True
    with False none show ?thesis
      by (simp add: step_def onAnalyze_start_def analyze_guarded_def analyses_in_flight_def)
  next
    case keyed: False
    with False none show ?thesis
      by (simp add: step_def onAnalyze_start_def analyze_guarded_def analyses_in_flight_def
          setLoading_def analysing_def Let_def)
  qed
qed

lemma guarded_ClickClear: "analyze_guarded a \<Longrightarrow> analyze_guarded (step a ClickClear)"
  by (auto simp: analyze_guarded_def analyses_in_flight_def step_def onClear_def)

lemma guarded_ClickCopy: "analyze_guarded a \<Longrightarrow> analyze_guarded (step a (ClickCopy c))"
  by (auto simp: analyze_guarded_def analyses_in_flight_def step_def onCopy_def showError_def
      split: option.splits)

lemma guarded_TypeChat: "analyze_guarded a \<Longrightarrow> analyze_guarded (step a (TypeChat v))"
  by (auto simp: analyze_guarded_def analyses_in_flight_def step_def)

lemma guarded_onChatSend_start: "analyze_guarded a \<Longrightarrow> analyze_guarded (onChatSend_start now a)"
  by (auto simp: analyze_guarded_def analyses_in_flight_def onChatSend_start_def
      setChatSending_def clearChatInput_def appendChatMessage_def analysing_def Let_def)

lemma guarded_ClickSend: "analyze_guarded a \<Longrightarrow> analyze_guarded (step a (ClickSend now))"
  by (simp add: step_def guarded_onChatSend_start)

lemma guarded_PressEnter: "analyze_guarded a \<Longrightarrow> analyze_guarded (step a (PressEnter now))"
  by (simp add: step_def guarded_onChatSend_start)

lemma guarded_ClickExport: "analyze_guarded a \<Longrightarrow> analyze_guarded (step a ClickExport)"
  by (auto simp: analyze_guarded_def analyses_in_flight_def step_def onExportChat_def showError_def)

lemma guarded_ClickDismiss: "analyze_guarded a \<Longrightarrow> analyze_guarded (step a ClickDismiss)"
  by (auto simp: analyze_guarded_def analyses_in_flight_def step_def onDismissError_def hideError_def)

lemma pending_onAnalyze_settle: "pending (onAnalyze_settle code res a) = pending a"
  by (simp add: onAnalyze_settle_def Let_def split: sum.splits)

lemma pending_onChatSend_settle: "pending (onChatSend_settle res now a) = pending a"
  by (simp add: onChatSend_settle_def Let_def split: sum.splits)

lemma flags_onChatSend_settle:
  "analyzeBtn_disabled (ui (onChatSend_settle res now a)) = analyzeBtn_disabled (ui a)"
  "codeInput_disabled (ui (onChatSend_settle res now a)) = codeInput_disabled (ui a)"
  "clearBtn_disabled (ui (onChatSend_settle res now a)) = clearBtn_disabled (ui a)"
  by (simp_all add: onChatSend_settle_def Let_def setChatSending_def appendChatMessage_def
      showError_def split: sum.splits)

lemma guarded_Settle:
  assumes "analyze_guarded a"
  shows "analyze_guarded (step a (Settle i outcome now))"
proof (cases "i < length (pending a)")
  case False
  with assms show ?thesis by (simp add: step_def)
next
  case True
  let ?rest = "take i (pending a) @ drop (Suc i) (pending a)"
  have count: "analyses_in_flight a
      = length (filter analysing ?rest) + (if analysing (pending a ! i) then 1 else 0)"
    unfolding analyses_in_flight_def using True by (rule filter_without_nth)
  show ?thesis
  proof (cases "pending a ! i")
    case (Analyzing code language)
    then have "length (filter analysing ?rest) = 0"
      using count assms by (simp add: analyze_guarded_def analysing_def)
    then show ?thesis
      using True Analyzing
      by (simp add: step_def settle_def analyze_guarded_def analyses_in_flight_def
          pending_onAnalyze_settle)
  next
    case (Sending question)
    then have "length (filter analysing ?rest) = analyses_in_flight a"
      using count by (simp add: analysing_def)
    then show ?thesis
      using True Sending assms
      by (simp add: step_def settle_def analyze_guarded_def analyses_in_flight_def
          pending_onChatSend_settle flags_onChatSend_settle)
  qed
qed

lemma guarded_step: "analyze_guarded a \<Longrightarrow> analyze_guarded (step a e)"
  by (cases e)
    (simp_all only: guarded_TypeCode guarded_SelectLanguage guarded_ClickAnalyze
      guarded_ClickClear guarded_ClickCopy guarded_TypeChat guarded_ClickSend
      guarded_PressEnter guarded_ClickExport guarded_ClickDismiss guarded_Settle)

lemma guarded_run: "analyze_guarded a \<Longrightarrow> analyze_guarded (run a es)"
  unfolding run_def by (induction es arbitrary: a) (simp_all add: guarded_step)

lemma guarded_idle: "pending a = [] \<Longrightarrow> analyze_guarded a"
  by (simp add: analyze_guarded_def analyses_in_flight_def)

text \<open>
  C2 (as amended). From any page with no request pending, whatever the user does and
  however the requests settle: at most one analysis request is outstanding at any time,
  and while one is outstanding a click on Analyze is not delivered, the button being
  disabled, so it changes nothing: no second request, \<open>analysisResult\<close> untouched, and
  nothing reported.
\<close>

theorem one_analysis_at_a_time:
  assumes "pending a0 = []"
  shows "analyses_in_flight (run a0 es) \<le> 1
    \<and> (analyses_in_flight (run a0 es) = 1 \<longrightarrow> step (run a0 es) ClickAnalyze = run a0 es)"
proof -
  have "analyze_guarded (run a0 es)"
    using assms by (intro guarded_run guarded_idle)
  then show ?thesis
    by (simp add: analyze_guarded_def step_def)
qed


theorem one_analysis_at_a_time_witness:
  "pending (blank_app (js ''key'')) = []
   \<and> analyses_in_flight (run (blank_app (js ''key'')) [TypeCode sample_code, ClickAnalyze]) = 1
   \<and> step (run (blank_app (js ''key'')) [TypeCode sample_code, ClickAnalyze]) ClickAnalyze
     = run (blank_app (js ''key'')) [TypeCode sample_code, ClickAnalyze]"
proof -
  have idle: "pending (blank_app (js ''key'')) = []"
    by (simp add: blank_app_def)
  have one: "analyses_in_flight (run (blank_app (js ''key'')) [TypeCode sample_code, ClickAnalyze]) = 1"
    by (simp add: analyses_in_flight_def analysing_def run_def step_def blank_app_def
        blank_ui_def setApiKey_def initial_state_def onCodeInput_def setCurrentCode_def
        setAnalyzeButtonEnabled_def sample_code_length onAnalyze_start_def no_key_def
        js_eq_Nil Let_def)
  from one_analysis_at_a_time [OF idle, of "[TypeCode sample_code, ClickAnalyze]"] idle one
  show ?thesis by simp
qed

text \<open>
  C2 as stated fails: a follow-up in flight does not disable the Analyze button. After
  an analysis and a question sent, a click on Analyze issues a second request while
  the first is outstanding.
\<close>

theorem two_requests_counterexample:
  "run (blank_app (js ''key''))
     [TypeCode sample_code, ClickAnalyze, Settle 0 (replying sample_report) 1,
      TypeChat (js ''why?''), ClickSend 2]
   = analysed_page
       \<lparr>state := appendChat user (js ''why?'') 2 (state analysed_page),
         ui := setChatSending True (clearChatInput
                 (appendChatMessage user (js ''why?'') (ui analysed_page))),
         pending := [Sending (js ''why?'')]\<rparr>
   \<and> pending (run (blank_app (js ''key''))
        [TypeCode sample_code, ClickAnalyze, Settle 0 (replying sample_report) 1,
         TypeChat (js ''why?''), ClickSend 2, ClickAnalyze])
     = [Sending (js ''why?''), Analyzing sample_code (js ''auto'')]"
proof -
  have split1: "run (blank_app (js ''key''))
      [TypeCode sample_code, ClickAnalyze, Settle 0 (replying sample_report) 1,
       TypeChat (js ''why?''), ClickSend 2]
    = step analysed_page (ClickSend 2)"
    by (simp add: analysed_page_def run_def)
  have split2: "run (blank_app (js ''key''))
      [TypeCode sample_code, ClickAnalyze, Settle 0 (replying sample_report) 1,
       TypeChat (js ''why?''), ClickSend 2, ClickAnalyze]
    = step (step analysed_page (ClickSend 2)) ClickAnalyze"
    by (simp add: analysed_page_def run_def)
  have sent: "step analysed_page (ClickSend 2)
    = analysed_page
       \<lparr>state := appendChat user (js ''why?'') 2 (state analysed_page),
         ui := setChatSending True (clearChatInput
                 (appendChatMessage user (js ''why?'') (ui analysed_page))),
         pending := [Sending (js ''why?'')]\<rparr>"
    by (simp add: analysed_page_eq step_def onChatSend_start_def trim_why js_eq_Nil no_key_def
        Let_def)
  have both: "pending (step (step analysed_page (ClickSend 2)) ClickAnalyze)
    = [Sending (js ''why?''), Analyzing sample_code (js ''auto'')]"
    by (simp only: sent)
      (simp add: analysed_page_eq step_def onAnalyze_start_def no_key_def js_eq_Nil
        setChatSending_def clearChatInput_def appendChatMessage_def appendChat_def Let_def)
  show ?thesis
    by (simp only: split1 split2 both simp_thms) (simp only: sent)
qed

section \<open>Properties of a follow-up\<close>
















end
